theory Spec2Isabelle
  imports Complex_Main
begin

section \<open>JavaScript values at run time\<close>

text \<open>
  The remote API answers with JSON, and the TypeScript types of the source are erased at
  run time, so the embedding works on untyped values: the JSON values and \<open>undefined\<close>
  (what reading an absent property gives). Numbers are never computed with; they are kept
  as rationals, which cover every finite double. An object is its list of own properties,
  looked up by key (of a key listed twice, the first entry is the property).
\<close>

datatype jsval =
    JUndefined
  | JNull
  | JBool bool
  | JNum rat
  | JStr string
  | JArr "jsval list"
  | JObj "(string \<times> jsval) list"

text \<open>
  What can be thrown inside \<open>getContacts\<close>: a \<open>TypeError\<close> of the language (reading a
  property of \<open>null\<close>/\<open>undefined\<close>, calling something that is not a function), or whatever
  the remote call rejects with.
\<close>

datatype js_error = TypeError | Rejected jsval

definition bind_err :: "js_error + 'a \<Rightarrow> ('a \<Rightarrow> js_error + 'b) \<Rightarrow> js_error + 'b" where
  "bind_err r f = (case r of Inl e \<Rightarrow> Inl e | Inr v \<Rightarrow> f v)"

fun typeof :: "jsval \<Rightarrow> string" where
  "typeof JUndefined = ''undefined''"
| "typeof JNull = ''object''"
| "typeof (JBool b) = ''boolean''"
| "typeof (JNum n) = ''number''"
| "typeof (JStr s) = ''string''"
| "typeof (JArr xs) = ''object''"
| "typeof (JObj kvs) = ''object''"

fun nullish :: "jsval \<Rightarrow> bool" where
  "nullish JUndefined = True"
| "nullish JNull = True"
| "nullish v = False"

text \<open>The truthiness that \<open>!type\<close> tests.\<close>

fun truthy :: "jsval \<Rightarrow> bool" where
  "truthy JUndefined = False"
| "truthy JNull = False"
| "truthy (JBool b) = b"
| "truthy (JNum n) = (n \<noteq> 0)"
| "truthy (JStr s) = (s \<noteq> [])"
| "truthy (JArr xs) = True"
| "truthy (JObj kvs) = True"

text \<open>
  \<open>v.k\<close> for the property names the source reads (\<open>data\<close>, \<open>id\<close>, \<open>customId\<close>, \<open>name\<close>,
  \<open>code\<close>, \<open>tradeName\<close>, \<open>email\<close>, \<open>mobile\<close>, \<open>phone\<close>, \<open>type\<close>): none of them is a member of
  a built-in prototype, so a primitive or an array has none of them, an object has it
  when it is an own property, and \<open>null\<close> and \<open>undefined\<close> throw.
\<close>

fun get_prop :: "jsval \<Rightarrow> string \<Rightarrow> js_error + jsval" where
  "get_prop JUndefined k = Inl TypeError"
| "get_prop JNull k = Inl TypeError"
| "get_prop (JObj kvs) k = Inr (case map_of kvs k of Some v \<Rightarrow> v | None \<Rightarrow> JUndefined)"
| "get_prop v k = Inr JUndefined"

text \<open>Optional chaining, \<open>v?.k\<close>.\<close>

definition opt_get_prop :: "jsval \<Rightarrow> string \<Rightarrow> js_error + jsval" where
  "opt_get_prop v k = (if nullish v then Inr JUndefined else get_prop v k)"

text \<open>
  \<open>Array.prototype.filter\<close> and \<open>Array.prototype.map\<close> with a callback that may throw:
  the first exception ends the loop.
\<close>

fun array_filter :: "(jsval \<Rightarrow> js_error + bool) \<Rightarrow> jsval list \<Rightarrow> js_error + jsval list" where
  "array_filter p [] = Inr []"
| "array_filter p (x # xs) =
     bind_err (p x) (\<lambda>b. bind_err (array_filter p xs) (\<lambda>ys. Inr (if b then x # ys else ys)))"

fun array_map :: "(jsval \<Rightarrow> js_error + 'a) \<Rightarrow> jsval list \<Rightarrow> js_error + 'a list" where
  "array_map f [] = Inr []"
| "array_map f (x # xs) =
     bind_err (f x) (\<lambda>y. bind_err (array_map f xs) (\<lambda>ys. Inr (y # ys)))"

text \<open>
  \<open>d.filter(p)\<close> on an arbitrary value \<open>d\<close>: only an array has the method; on \<open>undefined\<close>
  and \<open>null\<close> the property read throws, on anything else the call of a non-function does.
\<close>

fun call_filter :: "jsval \<Rightarrow> (jsval \<Rightarrow> js_error + bool) \<Rightarrow> js_error + jsval list" where
  "call_filter (JArr xs) p = array_filter p xs"
| "call_filter v p = Inl TypeError"

section \<open>The contact type and the fetcher\<close>

text \<open>
  The interface \<open>Contact\<close>. Its field types are erased at run time (\<open>type\<close> is cast, the
  others are copied as they come), so each field holds a run-time value.
\<close>

record Contact =
  id_c :: jsval
  customId :: jsval
  name_c :: jsval
  code_c :: jsval
  tradeName :: jsval
  email :: jsval
  mobile :: jsval
  phone :: jsval
  type_c :: jsval

text \<open>
  The process and the singleton API client: the environment variables, the credentials
  that \<open>auth\<close> stored in the client, and what was written with \<open>console.error\<close>.
\<close>

record world =
  process_env :: "string \<rightharpoonup> string"
  core_auth :: "jsval list"
  console_error :: "(string \<times> js_error) list"

text \<open>
  \<open>core.fetch\<close> of the client library is the remote service: from the stored credentials,
  the path, the method and the metadata it resolves to a response or rejects.
\<close>

type_synonym core_fetch = "jsval list \<Rightarrow> string \<Rightarrow> string \<Rightarrow> jsval \<Rightarrow> js_error + jsval"

definition env_var :: "world \<Rightarrow> string \<Rightarrow> jsval" where
  "env_var w k = (case process_env w k of None \<Rightarrow> JUndefined | Some s \<Rightarrow> JStr s)"

definition auth :: "jsval list \<Rightarrow> world \<Rightarrow> world" where
  "auth values w = w\<lparr>core_auth := values\<rparr>"

definition listContacts :: "core_fetch \<Rightarrow> jsval \<Rightarrow> world \<Rightarrow> js_error + jsval" where
  "listContacts fetch metadata w = fetch (core_auth w) ''/contacts'' ''get'' metadata"

text \<open>The type guard given to \<open>filter\<close>: \<open>typeof contact?.id === 'string'\<close>.\<close>

definition has_string_id :: "jsval \<Rightarrow> js_error + bool" where
  "has_string_id contact =
     bind_err (opt_get_prop contact ''id'') (\<lambda>v. Inr (typeof v = ''string''))"

text \<open>The arrow function given to \<open>map\<close>; the properties are read in the order written.\<close>

definition to_contact :: "jsval \<Rightarrow> js_error + Contact" where
  "to_contact contact =
     bind_err (get_prop contact ''id'') (\<lambda>v1.
     bind_err (get_prop contact ''customId'') (\<lambda>v2.
     bind_err (get_prop contact ''name'') (\<lambda>v3.
     bind_err (get_prop contact ''code'') (\<lambda>v4.
     bind_err (get_prop contact ''tradeName'') (\<lambda>v5.
     bind_err (get_prop contact ''email'') (\<lambda>v6.
     bind_err (get_prop contact ''mobile'') (\<lambda>v7.
     bind_err (get_prop contact ''phone'') (\<lambda>v8.
     bind_err (get_prop contact ''type'') (\<lambda>v9.
       Inr \<lparr>id_c = v1, customId = v2, name_c = v3, code_c = v4, tradeName = v5,
            email = v6, mobile = v7, phone = v8, type_c = v9\<rparr>)))))))))"

text \<open>
  The body of the \<open>try\<close> block, with the credential given to \<open>auth\<close> as a parameter: the
  two definitions of \<open>getContacts\<close> in the repository differ in that argument only.
\<close>

definition getContacts_try ::
  "jsval \<Rightarrow> core_fetch \<Rightarrow> world \<Rightarrow> (js_error + Contact list) \<times> world" where
  "getContacts_try credential fetch w =
     (let w1 = auth [credential] w in
      (bind_err (listContacts fetch JUndefined w1) (\<lambda>contacts.
       bind_err (get_prop contacts ''data'') (\<lambda>d.
       bind_err (call_filter d has_string_id) (\<lambda>kept.
         array_map to_contact kept))), w1))"

text \<open>The \<open>catch\<close> block: log the error, return the empty array.\<close>

definition getContacts_catch ::
  "(js_error + Contact list) \<times> world \<Rightarrow> (js_error + Contact list) \<times> world" where
  "getContacts_catch rw =
     (case fst rw of
        Inl e \<Rightarrow> (Inr [],
          (snd rw)\<lparr>console_error := console_error (snd rw) @ [(''Error fetching contacts:'', e)]\<rparr>)
      | Inr cs \<Rightarrow> (Inr cs, snd rw))"

text \<open>\<open>getContacts\<close> as it reads the key from the environment (\<open>process.env.HOLDED_API_KEY\<close>).\<close>

definition getContacts :: "core_fetch \<Rightarrow> world \<Rightarrow> (js_error + Contact list) \<times> world" where
  "getContacts fetch w =
     getContacts_catch (getContacts_try (env_var w ''HOLDED_API_KEY'') fetch w)"

text \<open>The other definition of \<open>getContacts\<close>, which gives \<open>auth\<close> a string literal.\<close>

definition getContacts_literal :: "core_fetch \<Rightarrow> world \<Rightarrow> (js_error + Contact list) \<times> world" where
  "getContacts_literal fetch w =
     getContacts_catch (getContacts_try (JStr ''964f48473d755069d293cd3227d935b1'') fetch w)"

section \<open>The table renderer\<close>

definition getTypeColor :: "jsval \<Rightarrow> string" where
  "getTypeColor t =
     (if \<not> truthy t then ''default''
      else if t = JStr ''client'' then ''success''
      else if t = JStr ''supplier'' then ''warning''
      else if t = JStr ''lead'' then ''primary''
      else if t = JStr ''debtor'' then ''danger''
      else if t = JStr ''creditor'' then ''secondary''
      else ''default'')"

text \<open>The elements the component builds: a chip, a cell holding a value or a chip, a row, the table.\<close>

record Chip =
  color :: string
  variant :: string
  chip_children :: jsval

datatype TableCell = CellValue jsval | CellChip Chip

record TableRow =
  key :: jsval
  cells :: "TableCell list"

record Table =
  aria_label :: string
  wrapper_class :: string
  columns :: "string list"
  rows :: "TableRow list"

definition render_row :: "Contact \<Rightarrow> TableRow" where
  "render_row contact =
     \<lparr>key = id_c contact,
      cells = [CellValue (name_c contact),
               CellValue (email contact),
               CellValue (phone contact),
               CellChip \<lparr>color = getTypeColor (type_c contact), variant = ''flat'',
                         chip_children = type_c contact\<rparr>,
               CellValue (tradeName contact),
               CellValue (code_c contact),
               CellValue (mobile contact)]\<rparr>"

text \<open>The accented capitals of the column titles are their Latin-1 code units.\<close>

definition ContactsTable :: "Contact list \<Rightarrow> Table" where
  "ContactsTable contacts =
     \<lparr>aria_label = ''Contacts table'',
      wrapper_class = ''min-h-[400px]'',
      columns = [''NOMBRE'', ''EMAIL'', ''TEL'' @ [CHR 0xC9] @ ''FONO'', ''TIPO'',
                 ''NOMBRE COMERCIAL'', ''C'' @ [CHR 0xD3] @ ''DIGO'',
                 ''M'' @ [CHR 0xD3] @ ''VIL''],
      rows = map render_row contacts\<rparr>"

section \<open>The words of the specification\<close>

text \<open>
  The specification speaks of a record's fields being present or absent, of the records
  whose \<open>id\<close> is a string, and of those whose \<open>id\<close> is a non-empty string. These
  definitions follow its words; the theorems below compare them with the code.
\<close>

fun own_prop :: "jsval \<Rightarrow> string \<Rightarrow> jsval option" where
  "own_prop (JObj kvs) k = map_of kvs k"
| "own_prop v k = None"

definition string_id :: "jsval \<Rightarrow> bool" where
  "string_id c = (case own_prop c ''id'' of Some (JStr s) \<Rightarrow> True | _ \<Rightarrow> False)"

definition nonempty_string_id :: "jsval \<Rightarrow> bool" where
  "nonempty_string_id c = (case own_prop c ''id'' of Some (JStr s) \<Rightarrow> s \<noteq> [] | _ \<Rightarrow> False)"

text \<open>A field as the output is to carry it: the input's value, \<open>undefined\<close> when absent.\<close>

definition field_of :: "jsval \<Rightarrow> string \<Rightarrow> jsval" where
  "field_of c k = (case own_prop c k of Some v \<Rightarrow> v | None \<Rightarrow> JUndefined)"

definition display_of :: "jsval \<Rightarrow> Contact" where
  "display_of c =
     \<lparr>id_c = field_of c ''id'', customId = field_of c ''customId'', name_c = field_of c ''name'',
      code_c = field_of c ''code'', tradeName = field_of c ''tradeName'',
      email = field_of c ''email'', mobile = field_of c ''mobile'', phone = field_of c ''phone'',
      type_c = field_of c ''type''\<rparr>"

section \<open>Concrete remotes and inputs\<close>

text \<open>A remote that resolves with a fixed response, and one that rejects with a fixed value.\<close>

definition respond :: "jsval \<Rightarrow> core_fetch" where
  "respond r credentials path method metadata = Inr r"

definition reject :: "jsval \<Rightarrow> core_fetch" where
  "reject e credentials path method metadata = Inl (Rejected e)"

definition response_of :: "jsval list \<Rightarrow> jsval" where
  "response_of xs = JObj [(''data'', JArr xs)]"

definition example_world :: world where
  "example_world =
     \<lparr>process_env = [''HOLDED_API_KEY'' \<mapsto> ''k-123''], core_auth = [], console_error = []\<rparr>"

text \<open>The response of the specification's end-to-end scenario.\<close>

definition scenario_data :: "jsval list" where
  "scenario_data =
     [JObj [(''id'', JStr ''1''), (''name'', JStr ''Acme''), (''type'', JStr ''client'')],
      JObj [(''id'', JNull), (''name'', JStr ''Bad'')],
      JObj [(''id'', JStr ''3''), (''name'', JStr ''Beta''), (''type'', JStr ''supplier'')]]"

section \<open>What the filter and the projection compute\<close>

lemma bind_err_simps [simp]:
  "bind_err (Inl e) f = Inl e" "bind_err (Inr v) f = f v"
  by (simp_all add: bind_err_def)

lemma listContacts_respond [simp]: "listContacts (respond r) m w = Inr r"
  by (simp add: listContacts_def respond_def)

lemma listContacts_reject [simp]: "listContacts (reject e) m w = Inl (Rejected e)"
  by (simp add: listContacts_def reject_def)

lemma get_prop_response_of [simp]: "get_prop (response_of xs) ''data'' = Inr (JArr xs)"
  by (simp add: response_of_def)

lemma get_prop_field: "\<not> nullish c \<Longrightarrow> get_prop c k = Inr (field_of c k)"
  by (cases c) (simp_all add: field_of_def)

lemma string_id_not_nullish: "string_id c \<Longrightarrow> \<not> nullish c"
  by (cases c) (simp_all add: string_id_def)

text \<open>The type guard never throws, and it holds exactly of the records with a string \<open>id\<close>.\<close>

lemma has_string_id_eq: "has_string_id c = Inr (string_id c)"
proof (cases "nullish c")
  case True
  then show ?thesis
    by (cases c) (simp_all add: has_string_id_def opt_get_prop_def string_id_def)
next
  case False
  have "typeof v = ''string'' \<longleftrightarrow> (\<exists>s. v = JStr s)" for v
    by (cases v) simp_all
  then show ?thesis using False
    by (cases c)
      (auto simp add: has_string_id_def opt_get_prop_def string_id_def
        split: option.splits jsval.splits)
qed

lemma array_filter_total:
  "(\<And>x. p x = Inr (q x)) \<Longrightarrow> array_filter p xs = Inr (filter q xs)"
  by (induction xs) simp_all

lemma array_map_total:
  "(\<And>x. x \<in> set xs \<Longrightarrow> f x = Inr (g x)) \<Longrightarrow> array_map f xs = Inr (map g xs)"
  by (induction xs) simp_all

lemma to_contact_display: "\<not> nullish c \<Longrightarrow> to_contact c = Inr (display_of c)"
  by (simp add: to_contact_def display_of_def get_prop_field)

lemma getContacts_try_resolved:
  assumes "listContacts fetch JUndefined (auth [cred] w) = Inr resp"
    and "get_prop resp ''data'' = Inr (JArr xs)"
  shows "getContacts_try cred fetch w =
    (Inr (map display_of (filter string_id xs)), auth [cred] w)"
proof -
  have f: "array_filter has_string_id xs = Inr (filter string_id xs)"
    by (rule array_filter_total) (rule has_string_id_eq)
  have m: "array_map to_contact (filter string_id xs) = Inr (map display_of (filter string_id xs))"
    by (rule array_map_total) (simp add: to_contact_display string_id_not_nullish)
  show ?thesis
    using assms by (simp add: getContacts_try_def Let_def f m)
qed

lemma getContacts_resolved:
  assumes "listContacts fetch JUndefined (auth [env_var w ''HOLDED_API_KEY''] w) = Inr resp"
    and "get_prop resp ''data'' = Inr (JArr xs)"
  shows "getContacts fetch w =
    (Inr (map display_of (filter string_id xs)), auth [env_var w ''HOLDED_API_KEY''] w)"
  by (simp add: getContacts_def getContacts_catch_def getContacts_try_resolved [OF assms])

section \<open>The color of a contact type\<close>

text \<open>
  C3. \<open>getTypeColor\<close> gives \<open>success\<close> for "client", \<open>warning\<close> for "supplier", \<open>primary\<close>
  for "lead", \<open>danger\<close> for "debtor", \<open>secondary\<close> for "creditor", and \<open>default\<close> for every
  other run-time value, \<open>undefined\<close> included.
\<close>

theorem getTypeColor_table:
  "getTypeColor (JStr ''client'') = ''success'' \<and>
   getTypeColor (JStr ''supplier'') = ''warning'' \<and>
   getTypeColor (JStr ''lead'') = ''primary'' \<and>
   getTypeColor (JStr ''debtor'') = ''danger'' \<and>
   getTypeColor (JStr ''creditor'') = ''secondary'' \<and>
   getTypeColor JUndefined = ''default'' \<and>
   (\<forall>t. t \<notin> {JStr ''client'', JStr ''supplier'', JStr ''lead'', JStr ''debtor'',
              JStr ''creditor''} \<longrightarrow> getTypeColor t = ''default'')"
  by (simp add: getTypeColor_def)

theorem getTypeColor_table_witness:
  "JStr ''vip'' \<notin> {JStr ''client'', JStr ''supplier'', JStr ''lead'', JStr ''debtor'',
                   JStr ''creditor''} \<and> getTypeColor (JStr ''vip'') = ''default'' \<and>
   JNull \<notin> {JStr ''client'', JStr ''supplier'', JStr ''lead'', JStr ''debtor'',
             JStr ''creditor''} \<and> getTypeColor JNull = ''default''"
  using getTypeColor_table by simp

section \<open>Which records the fetcher keeps\<close>

text \<open>
  C1, as the code has it. When the remote call resolves with a response whose \<open>data\<close> is
  an array, \<open>getContacts\<close> returns the projections of exactly the entries whose \<open>id\<close> is
  present and is a string (the empty string included), in the order of the input; the
  other entries are dropped and nothing is logged.
\<close>

theorem getContacts_keeps_string_ids:
  assumes "listContacts fetch JUndefined (auth [env_var w ''HOLDED_API_KEY''] w) = Inr resp"
    and "get_prop resp ''data'' = Inr (JArr xs)"
  shows "\<exists>out. fst (getContacts fetch w) = Inr out \<and>
           map Inr out = map to_contact (filter string_id xs) \<and>
           map id_c out = map (\<lambda>c. field_of c ''id'') (filter string_id xs) \<and>
           console_error (snd (getContacts fetch w)) = console_error w"
proof -
  have "map Inr (map display_of (filter string_id xs)) = map to_contact (filter string_id xs)"
    by (simp add: to_contact_display string_id_not_nullish)
  moreover have "map id_c (map display_of (filter string_id xs)) =
      map (\<lambda>c. field_of c ''id'') (filter string_id xs)"
    by (simp add: display_of_def)
  ultimately show ?thesis
    by (simp add: getContacts_resolved [OF assms] auth_def)
qed

theorem getContacts_keeps_string_ids_witness:
  "listContacts (respond (response_of scenario_data)) JUndefined
     (auth [env_var example_world ''HOLDED_API_KEY''] example_world) = Inr (response_of scenario_data) \<and>
   get_prop (response_of scenario_data) ''data'' = Inr (JArr scenario_data) \<and>
   map id_c (projr (fst (getContacts (respond (response_of scenario_data)) example_world))) =
     [JStr ''1'', JStr ''3'']"
  using getContacts_keeps_string_ids [of "respond (response_of scenario_data)" example_world
      "response_of scenario_data" scenario_data]
  by (auto simp add: scenario_data_def string_id_def field_of_def)

text \<open>
  C1 as the specification words it asks for a non-empty string. A record whose \<open>id\<close> is
  the empty string is kept, so the output is not the subset with a non-empty \<open>id\<close>.
\<close>

theorem getContacts_nonempty_id_counterexample:
  "fst (getContacts (respond (response_of
      [JObj [(''id'', JStr ''''), (''name'', JStr ''Ghost'')], JObj [(''id'', JStr ''7'')]]))
      example_world) \<noteq>
   Inr (map display_of (filter nonempty_string_id
      [JObj [(''id'', JStr ''''), (''name'', JStr ''Ghost'')], JObj [(''id'', JStr ''7'')]]))"
  by (simp add: getContacts_def getContacts_catch_def getContacts_try_def Let_def
      has_string_id_def opt_get_prop_def to_contact_def nonempty_string_id_def
      response_of_def)

section \<open>Failures are masked\<close>

text \<open>
  C2. \<open>getContacts\<close> always returns an array, never an exception. Whenever the body of
  its \<open>try\<close> block throws, it returns the empty array and logs the error; the body throws
  when \<open>listContacts\<close> rejects, and when the response has no array under \<open>data\<close>.
\<close>

theorem getContacts_masks_failure:
  "(\<exists>cs. fst (getContacts fetch w) = Inr cs) \<and>
   (\<forall>e. fst (getContacts_try (env_var w ''HOLDED_API_KEY'') fetch w) = Inl e \<longrightarrow>
      fst (getContacts fetch w) = Inr [] \<and>
      console_error (snd (getContacts fetch w)) =
        console_error w @ [(''Error fetching contacts:'', e)]) \<and>
   (\<forall>e. listContacts fetch JUndefined (auth [env_var w ''HOLDED_API_KEY''] w) = Inl e \<longrightarrow>
      fst (getContacts_try (env_var w ''HOLDED_API_KEY'') fetch w) = Inl e) \<and>
   (\<forall>resp. listContacts fetch JUndefined (auth [env_var w ''HOLDED_API_KEY''] w) = Inr resp \<longrightarrow>
      (\<forall>xs. get_prop resp ''data'' \<noteq> Inr (JArr xs)) \<longrightarrow>
      fst (getContacts_try (env_var w ''HOLDED_API_KEY'') fetch w) = Inl TypeError)"
proof (intro conjI allI impI)
  show "\<exists>cs. fst (getContacts fetch w) = Inr cs"
    by (simp add: getContacts_def getContacts_catch_def split: sum.splits)
next
  fix e
  assume "fst (getContacts_try (env_var w ''HOLDED_API_KEY'') fetch w) = Inl e"
  then show "fst (getContacts fetch w) = Inr []"
    by (simp add: getContacts_def getContacts_catch_def)
next
  fix e
  assume a: "fst (getContacts_try (env_var w ''HOLDED_API_KEY'') fetch w) = Inl e"
  have "snd (getContacts_try (env_var w ''HOLDED_API_KEY'') fetch w) =
      auth [env_var w ''HOLDED_API_KEY''] w"
    by (simp add: getContacts_try_def Let_def)
  with a show "console_error (snd (getContacts fetch w)) =
      console_error w @ [(''Error fetching contacts:'', e)]"
    by (simp add: getContacts_def getContacts_catch_def auth_def)
next
  fix e
  assume "listContacts fetch JUndefined (auth [env_var w ''HOLDED_API_KEY''] w) = Inl e"
  then show "fst (getContacts_try (env_var w ''HOLDED_API_KEY'') fetch w) = Inl e"
    by (simp add: getContacts_try_def Let_def)
next
  fix resp
  assume r: "listContacts fetch JUndefined (auth [env_var w ''HOLDED_API_KEY''] w) = Inr resp"
    and s: "\<forall>xs. get_prop resp ''data'' \<noteq> Inr (JArr xs)"
  have "bind_err (get_prop resp ''data'') (\<lambda>d. bind_err (call_filter d has_string_id) k) =
      Inl TypeError" for k :: "jsval list \<Rightarrow> js_error + Contact list"
  proof (cases "get_prop resp ''data''")
    case (Inl e)
    then have "e = TypeError"
      by (cases resp) auto
    with Inl show ?thesis by simp
  next
    case (Inr d)
    with s have "\<forall>xs. d \<noteq> JArr xs" by simp
    then have "call_filter d has_string_id = Inl TypeError"
      by (cases d) simp_all
    with Inr show ?thesis by simp
  qed
  with r show "fst (getContacts_try (env_var w ''HOLDED_API_KEY'') fetch w) = Inl TypeError"
    by (simp add: getContacts_try_def Let_def)
qed

theorem getContacts_masks_failure_witness:
  "listContacts (reject (JStr ''401'')) JUndefined
      (auth [env_var example_world ''HOLDED_API_KEY''] example_world) = Inl (Rejected (JStr ''401'')) \<and>
   fst (getContacts (reject (JStr ''401'')) example_world) = Inr [] \<and>
   console_error (snd (getContacts (reject (JStr ''401'')) example_world)) =
     [(''Error fetching contacts:'', Rejected (JStr ''401''))] \<and>
   listContacts (respond (JObj [(''data'', JStr ''oops'')])) JUndefined
      (auth [env_var example_world ''HOLDED_API_KEY''] example_world) =
        Inr (JObj [(''data'', JStr ''oops'')]) \<and>
   fst (getContacts (respond (JObj [(''data'', JStr ''oops'')])) example_world) = Inr [] \<and>
   console_error (snd (getContacts (respond (JObj [(''data'', JStr ''oops'')])) example_world)) =
     [(''Error fetching contacts:'', TypeError)]"
proof -
  let ?k = "env_var example_world ''HOLDED_API_KEY''"
  have r: "listContacts (reject (JStr ''401'')) JUndefined (auth [?k] example_world) =
      Inl (Rejected (JStr ''401''))"
    by simp
  have s: "listContacts (respond (JObj [(''data'', JStr ''oops'')])) JUndefined
      (auth [?k] example_world) = Inr (JObj [(''data'', JStr ''oops'')])"
    by simp
  have n: "\<forall>xs. get_prop (JObj [(''data'', JStr ''oops'')]) ''data'' \<noteq> Inr (JArr xs)"
    by simp
  have c: "console_error example_world = []"
    by (simp add: example_world_def)
  note a = getContacts_masks_failure [of "reject (JStr ''401'')" example_world]
  note b = getContacts_masks_failure [of "respond (JObj [(''data'', JStr ''oops'')])" example_world]
  from a r have a1: "fst (getContacts_try ?k (reject (JStr ''401'')) example_world) =
      Inl (Rejected (JStr ''401''))"
    by blast
  from b s n have b1: "fst (getContacts_try ?k (respond (JObj [(''data'', JStr ''oops'')]))
      example_world) = Inl TypeError"
    by blast
  from a a1 have a2: "fst (getContacts (reject (JStr ''401'')) example_world) = Inr [] \<and>
      console_error (snd (getContacts (reject (JStr ''401'')) example_world)) =
        console_error example_world @ [(''Error fetching contacts:'', Rejected (JStr ''401''))]"
    by blast
  from b b1 have b2: "fst (getContacts (respond (JObj [(''data'', JStr ''oops'')])) example_world) = Inr [] \<and>
      console_error (snd (getContacts (respond (JObj [(''data'', JStr ''oops'')])) example_world)) =
        console_error example_world @ [(''Error fetching contacts:'', TypeError)]"
    by blast
  from r s a2 b2 c show ?thesis by simp
qed

section \<open>The fields of a kept record\<close>

text \<open>
  C4. For every record that \<open>getContacts\<close> keeps, the fields \<open>id\<close>, \<open>customId\<close>, \<open>name\<close>,
  \<open>code\<close>, \<open>tradeName\<close>, \<open>email\<close>, \<open>mobile\<close> and \<open>phone\<close> of the output record at the same
  position are the input's values, unchanged; a field the input lacks is \<open>undefined\<close>.
\<close>

theorem getContacts_copies_fields:
  assumes "listContacts fetch JUndefined (auth [env_var w ''HOLDED_API_KEY''] w) = Inr resp"
    and "get_prop resp ''data'' = Inr (JArr xs)"
  shows "\<exists>out. fst (getContacts fetch w) = Inr out \<and>
           length out = length (filter string_id xs) \<and>
           (\<forall>i < length out.
              id_c (out ! i) = field_of (filter string_id xs ! i) ''id'' \<and>
              customId (out ! i) = field_of (filter string_id xs ! i) ''customId'' \<and>
              name_c (out ! i) = field_of (filter string_id xs ! i) ''name'' \<and>
              code_c (out ! i) = field_of (filter string_id xs ! i) ''code'' \<and>
              tradeName (out ! i) = field_of (filter string_id xs ! i) ''tradeName'' \<and>
              email (out ! i) = field_of (filter string_id xs ! i) ''email'' \<and>
              mobile (out ! i) = field_of (filter string_id xs ! i) ''mobile'' \<and>
              phone (out ! i) = field_of (filter string_id xs ! i) ''phone'')"
proof -
  let ?out = "map display_of (filter string_id xs)"
  have "fst (getContacts fetch w) = Inr ?out"
    by (simp add: getContacts_resolved [OF assms])
  moreover have "length ?out = length (filter string_id xs)"
    by simp
  moreover have "\<forall>i < length ?out.
      id_c (?out ! i) = field_of (filter string_id xs ! i) ''id'' \<and>
      customId (?out ! i) = field_of (filter string_id xs ! i) ''customId'' \<and>
      name_c (?out ! i) = field_of (filter string_id xs ! i) ''name'' \<and>
      code_c (?out ! i) = field_of (filter string_id xs ! i) ''code'' \<and>
      tradeName (?out ! i) = field_of (filter string_id xs ! i) ''tradeName'' \<and>
      email (?out ! i) = field_of (filter string_id xs ! i) ''email'' \<and>
      mobile (?out ! i) = field_of (filter string_id xs ! i) ''mobile'' \<and>
      phone (?out ! i) = field_of (filter string_id xs ! i) ''phone''"
    by (simp add: display_of_def)
  ultimately show ?thesis by blast
qed

theorem getContacts_copies_fields_witness:
  "listContacts (respond (response_of scenario_data)) JUndefined
     (auth [env_var example_world ''HOLDED_API_KEY''] example_world) = Inr (response_of scenario_data) \<and>
   get_prop (response_of scenario_data) ''data'' = Inr (JArr scenario_data) \<and>
   (1::nat) < length (projr (fst (getContacts (respond (response_of scenario_data)) example_world))) \<and>
   name_c (projr (fst (getContacts (respond (response_of scenario_data)) example_world)) ! 1) =
     JStr ''Beta'' \<and>
   email (projr (fst (getContacts (respond (response_of scenario_data)) example_world)) ! 1) =
     JUndefined"
  using getContacts_copies_fields [of "respond (response_of scenario_data)" example_world
      "response_of scenario_data" scenario_data]
  by (auto simp add: scenario_data_def string_id_def field_of_def)

text \<open>
  C8. The \<open>type\<close> field of a kept record is copied like the others, with no check
  against the five names of the enumeration: whatever string the input carries is the
  output's \<open>type\<close>.
\<close>

theorem getContacts_type_unvalidated:
  assumes "listContacts fetch JUndefined (auth [env_var w ''HOLDED_API_KEY''] w) = Inr resp"
    and "get_prop resp ''data'' = Inr (JArr xs)"
  shows "\<exists>out. fst (getContacts fetch w) = Inr out \<and>
           length out = length (filter string_id xs) \<and>
           (\<forall>i < length out.
              type_c (out ! i) = field_of (filter string_id xs ! i) ''type'' \<and>
              (\<forall>s. own_prop (filter string_id xs ! i) ''type'' = Some (JStr s) \<longrightarrow>
                 type_c (out ! i) = JStr s))"
proof -
  let ?out = "map display_of (filter string_id xs)"
  have "fst (getContacts fetch w) = Inr ?out"
    by (simp add: getContacts_resolved [OF assms])
  moreover have "length ?out = length (filter string_id xs)"
    by simp
  moreover have "\<forall>i < length ?out.
      type_c (?out ! i) = field_of (filter string_id xs ! i) ''type'' \<and>
      (\<forall>s. own_prop (filter string_id xs ! i) ''type'' = Some (JStr s) \<longrightarrow>
         type_c (?out ! i) = JStr s)"
    by (simp add: display_of_def field_of_def)
  ultimately show ?thesis by blast
qed

theorem getContacts_type_unvalidated_witness:
  "listContacts (respond (response_of [JObj [(''id'', JStr ''9''), (''type'', JStr ''vip'')]]))
     JUndefined (auth [env_var example_world ''HOLDED_API_KEY''] example_world) =
     Inr (response_of [JObj [(''id'', JStr ''9''), (''type'', JStr ''vip'')]]) \<and>
   get_prop (response_of [JObj [(''id'', JStr ''9''), (''type'', JStr ''vip'')]]) ''data'' =
     Inr (JArr [JObj [(''id'', JStr ''9''), (''type'', JStr ''vip'')]]) \<and>
   (0::nat) < length (projr (fst (getContacts
     (respond (response_of [JObj [(''id'', JStr ''9''), (''type'', JStr ''vip'')]])) example_world))) \<and>
   own_prop (JObj [(''id'', JStr ''9''), (''type'', JStr ''vip'')]) ''type'' = Some (JStr ''vip'') \<and>
   type_c (projr (fst (getContacts
     (respond (response_of [JObj [(''id'', JStr ''9''), (''type'', JStr ''vip'')]])) example_world)) ! 0) =
     JStr ''vip''"
  using getContacts_type_unvalidated [of
      "respond (response_of [JObj [(''id'', JStr ''9''), (''type'', JStr ''vip'')]])" example_world
      "response_of [JObj [(''id'', JStr ''9''), (''type'', JStr ''vip'')]]"
      "[JObj [(''id'', JStr ''9''), (''type'', JStr ''vip'')]]"]
  by (auto simp add: string_id_def field_of_def)

section \<open>The rows of the table\<close>

text \<open>
  C5. For a list of N contacts, \<open>ContactsTable\<close> builds exactly N rows, the i-th row from
  the i-th contact, and the key of each row is the \<open>id\<close> of its contact.
\<close>

theorem ContactsTable_rows:
  "length (rows (ContactsTable contacts)) = length contacts \<and>
   map key (rows (ContactsTable contacts)) = map id_c contacts \<and>
   (\<forall>i < length contacts. rows (ContactsTable contacts) ! i = render_row (contacts ! i))"
  by (simp add: ContactsTable_def render_row_def)

theorem ContactsTable_rows_witness:
  "(1::nat) < length [display_of (JObj [(''id'', JStr ''a'')]), display_of (JObj [(''id'', JStr ''b'')])] \<and>
   length (rows (ContactsTable
     [display_of (JObj [(''id'', JStr ''a'')]), display_of (JObj [(''id'', JStr ''b'')])])) = 2 \<and>
   key (rows (ContactsTable
     [display_of (JObj [(''id'', JStr ''a'')]), display_of (JObj [(''id'', JStr ''b'')])]) ! 1) =
     JStr ''b''"
proof -
  let ?cs = "[display_of (JObj [(''id'', JStr ''a'')]), display_of (JObj [(''id'', JStr ''b'')])]"
  have l: "(1::nat) < length ?cs" by simp
  from ContactsTable_rows [of ?cs] l
  have "length (rows (ContactsTable ?cs)) = length ?cs"
    and "rows (ContactsTable ?cs) ! 1 = render_row (?cs ! 1)"
    by blast+
  then show ?thesis
    by (simp add: render_row_def display_of_def field_of_def)
qed

section \<open>The end-to-end scenario\<close>

text \<open>
  C6. For the response whose \<open>data\<close> holds the records (id "1", Acme, client), (id null,
  Bad) and (id "3", Beta, supplier), \<open>getContacts\<close> returns the first and the third, and
  the table has two rows, the chip of the first of color \<open>success\<close> with label "client",
  the chip of the second of color \<open>warning\<close> with label "supplier".
\<close>

theorem scenario_end_to_end:
  "fst (getContacts (respond (response_of scenario_data)) w) =
     Inr [\<lparr>id_c = JStr ''1'', customId = JUndefined, name_c = JStr ''Acme'', code_c = JUndefined,
           tradeName = JUndefined, email = JUndefined, mobile = JUndefined, phone = JUndefined,
           type_c = JStr ''client''\<rparr>,
          \<lparr>id_c = JStr ''3'', customId = JUndefined, name_c = JStr ''Beta'', code_c = JUndefined,
           tradeName = JUndefined, email = JUndefined, mobile = JUndefined, phone = JUndefined,
           type_c = JStr ''supplier''\<rparr>] \<and>
   rows (ContactsTable (projr (fst (getContacts (respond (response_of scenario_data)) w)))) =
     [\<lparr>key = JStr ''1'',
       cells = [CellValue (JStr ''Acme''), CellValue JUndefined, CellValue JUndefined,
                CellChip \<lparr>color = ''success'', variant = ''flat'', chip_children = JStr ''client''\<rparr>,
                CellValue JUndefined, CellValue JUndefined, CellValue JUndefined]\<rparr>,
      \<lparr>key = JStr ''3'',
       cells = [CellValue (JStr ''Beta''), CellValue JUndefined, CellValue JUndefined,
                CellChip \<lparr>color = ''warning'', variant = ''flat'', chip_children = JStr ''supplier''\<rparr>,
                CellValue JUndefined, CellValue JUndefined, CellValue JUndefined]\<rparr>]"
proof -
  have "getContacts (respond (response_of scenario_data)) w =
      (Inr (map display_of (filter string_id scenario_data)), auth [env_var w ''HOLDED_API_KEY''] w)"
    by (rule getContacts_resolved [where resp = "response_of scenario_data"]) simp_all
  then show ?thesis
    by (simp add: scenario_data_def string_id_def display_of_def field_of_def
        ContactsTable_def render_row_def getTypeColor_def)
qed

section \<open>The credential\<close>

text \<open>The definition that reads the environment gives \<open>auth\<close> the variable's value.\<close>

lemma getContacts_env_credential:
  "core_auth (snd (getContacts fetch w)) = [env_var w ''HOLDED_API_KEY'']"
  by (simp add: getContacts_def getContacts_catch_def getContacts_try_def Let_def auth_def
      split: sum.splits)

text \<open>
  C7. The credential is to come from the environment variable on every invocation. The
  definition of \<open>getContacts\<close> with the string literal gives \<open>auth\<close> that literal whatever
  the environment holds: with \<open>HOLDED_API_KEY\<close> set to \<open>k-123\<close> the client is not given
  \<open>k-123\<close>.
\<close>

theorem getContacts_literal_credential:
  "core_auth (snd (getContacts_literal fetch w)) = [JStr ''964f48473d755069d293cd3227d935b1''] \<and>
   env_var example_world ''HOLDED_API_KEY'' = JStr ''k-123'' \<and>
   core_auth (snd (getContacts_literal fetch example_world)) \<noteq>
     [env_var example_world ''HOLDED_API_KEY'']"
  by (simp add: getContacts_literal_def getContacts_catch_def getContacts_try_def Let_def auth_def
      env_var_def example_world_def split: sum.splits)

section \<open>Entries that are null or undefined\<close>

lemma filter_string_id_nullish:
  "filter string_id (filter (\<lambda>c. \<not> nullish c) xs) = filter string_id xs"
  by (induction xs) (auto dest: string_id_not_nullish)

text \<open>
  C9. The type guard returns a boolean on every value, and \<open>false\<close> on \<open>null\<close> and
  \<open>undefined\<close>. When the response's \<open>data\<close> is an array, whatever its entries, the filter
  does not throw and keeps no \<open>null\<close> or \<open>undefined\<close> entry, nothing is logged (the
  \<open>catch\<close> block is not entered), and the result is the one for the array without those
  entries.
\<close>

theorem getContacts_nullish_entries:
  assumes "listContacts fetch JUndefined (auth [env_var w ''HOLDED_API_KEY''] w) = Inr resp"
    and "get_prop resp ''data'' = Inr (JArr xs)"
  shows "(\<forall>c. \<exists>b. has_string_id c = Inr b) \<and>
         (\<forall>c. nullish c \<longrightarrow> has_string_id c = Inr False) \<and>
         (\<exists>ys. array_filter has_string_id xs = Inr ys \<and> (\<forall>y \<in> set ys. \<not> nullish y)) \<and>
         console_error (snd (getContacts fetch w)) = console_error w \<and>
         fst (getContacts fetch w) =
           fst (getContacts (respond (response_of (filter (\<lambda>c. \<not> nullish c) xs))) w)"
proof (intro conjI)
  show "\<forall>c. \<exists>b. has_string_id c = Inr b"
    by (simp add: has_string_id_eq)
  show "\<forall>c. nullish c \<longrightarrow> has_string_id c = Inr False"
    using string_id_not_nullish by (auto simp add: has_string_id_eq)
  have "array_filter has_string_id xs = Inr (filter string_id xs)"
    by (rule array_filter_total) (rule has_string_id_eq)
  then show "\<exists>ys. array_filter has_string_id xs = Inr ys \<and> (\<forall>y \<in> set ys. \<not> nullish y)"
    by (simp add: string_id_not_nullish)
  show "console_error (snd (getContacts fetch w)) = console_error w"
    by (simp add: getContacts_resolved [OF assms] auth_def)
  have "getContacts (respond (response_of (filter (\<lambda>c. \<not> nullish c) xs))) w =
      (Inr (map display_of (filter string_id (filter (\<lambda>c. \<not> nullish c) xs))),
       auth [env_var w ''HOLDED_API_KEY''] w)"
    by (rule getContacts_resolved
        [where resp = "response_of (filter (\<lambda>c. \<not> nullish c) xs)"]) simp_all
  then show "fst (getContacts fetch w) =
      fst (getContacts (respond (response_of (filter (\<lambda>c. \<not> nullish c) xs))) w)"
    by (simp add: getContacts_resolved [OF assms] filter_string_id_nullish del: filter_filter)
qed

theorem getContacts_nullish_entries_witness:
  "listContacts (respond (response_of [JNull, JObj [(''id'', JStr ''5'')], JUndefined])) JUndefined
     (auth [env_var example_world ''HOLDED_API_KEY''] example_world) =
     Inr (response_of [JNull, JObj [(''id'', JStr ''5'')], JUndefined]) \<and>
   get_prop (response_of [JNull, JObj [(''id'', JStr ''5'')], JUndefined]) ''data'' =
     Inr (JArr [JNull, JObj [(''id'', JStr ''5'')], JUndefined]) \<and>
   nullish JNull \<and> has_string_id JNull = Inr False \<and>
   nullish JUndefined \<and> has_string_id JUndefined = Inr False \<and>
   console_error (snd (getContacts
     (respond (response_of [JNull, JObj [(''id'', JStr ''5'')], JUndefined])) example_world)) = [] \<and>
   fst (getContacts
     (respond (response_of [JNull, JObj [(''id'', JStr ''5'')], JUndefined])) example_world) =
   fst (getContacts (respond (response_of [JObj [(''id'', JStr ''5'')]])) example_world)"
  using getContacts_nullish_entries [of
      "respond (response_of [JNull, JObj [(''id'', JStr ''5'')], JUndefined])" example_world
      "response_of [JNull, JObj [(''id'', JStr ''5'')], JUndefined]"
      "[JNull, JObj [(''id'', JStr ''5'')], JUndefined]"]
  by (simp add: example_world_def)

section \<open>The empty identifier\<close>

text \<open>
  C10. A record whose \<open>id\<close> is the empty string is kept: the output for the one-record
  response holds a contact whose \<open>id\<close> is the empty string, which is not a non-empty
  string identifier.
\<close>

theorem getContacts_keeps_empty_id:
  "fst (getContacts (respond (response_of [JObj [(''id'', JStr '''')]])) w) =
     Inr [\<lparr>id_c = JStr '''', customId = JUndefined, name_c = JUndefined, code_c = JUndefined,
           tradeName = JUndefined, email = JUndefined, mobile = JUndefined, phone = JUndefined,
           type_c = JUndefined\<rparr>] \<and>
   \<not> nonempty_string_id (JObj [(''id'', JStr '''')])"
proof -
  have "getContacts (respond (response_of [JObj [(''id'', JStr '''')]])) w =
      (Inr (map display_of (filter string_id [JObj [(''id'', JStr '''')]])),
       auth [env_var w ''HOLDED_API_KEY''] w)"
    by (rule getContacts_resolved [where resp = "response_of [JObj [(''id'', JStr '''')]]"])
      simp_all
  then show ?thesis
    by (simp add: string_id_def nonempty_string_id_def display_of_def field_of_def)
qed

end
